theory Spec2Isabelle
  imports Main "HOL-Library.Word"
begin

section \<open>Account creation from a seed: validation and address preview\<close>

text \<open>
  A shallow embedding of the seed handling of the account creation modal
  (\<^verbatim>\<open>deriveValidate\<close>, \<^verbatim>\<open>isHexSeed\<close>, \<^verbatim>\<open>rawValidate\<close>, \<^verbatim>\<open>addressFromSeed\<close>,
  \<^verbatim>\<open>newSeed\<close>, \<^verbatim>\<open>generateSeed\<close>, \<^verbatim>\<open>updateAddress\<close>).

  \<^item> A JavaScript string is its sequence of UTF-16 code units; \<^verbatim>\<open>s.length\<close> is the
    length of that list and a template literal \<^verbatim>\<open>`${a}${b}`\<close> is concatenation.
  \<^item> A computation that may throw returns \<open>exn + 'a\<close>, \<open>Inl\<close> carrying the thrown
    value; \<^verbatim>\<open>try { ... } catch (error) { ... }\<close> is \<open>try_catch\<close>.
  \<^item> The functions imported from the keyring and the crypto utilities are not part
    of the modal: they are the fields of a record \<open>Lib\<close> that every operation takes
    as its first argument. The two calls the modal wraps in \<^verbatim>\<open>try\<close>
    (\<^verbatim>\<open>keyExtractSuri\<close>, \<^verbatim>\<open>createFromUri\<close>) may throw; the others return a value.
  \<^item> The system entropy source read by \<^verbatim>\<open>mnemonicGenerate\<close> and \<^verbatim>\<open>randomAsU8a\<close> is
    an explicit state of type \<open>'e\<close>, passed in and returned.
\<close>

subsection \<open>Strings\<close>

type_synonym jsstring = "16 word list"

definition ascii :: "string \<Rightarrow> jsstring" where
  "ascii s = map (\<lambda>c. word_of_nat (of_char c)) s"

text \<open>
  \<^verbatim>\<open>String.prototype.trim\<close> removes the leading and trailing code units that are
  ECMAScript white space or line terminators: TAB, LF, VT, FF, CR, SP, NBSP,
  U+1680, U+2000 to U+200A, U+2028, U+2029, U+202F, U+205F, U+3000 and U+FEFF.
\<close>

definition isWhiteSpace :: "16 word \<Rightarrow> bool" where
  "isWhiteSpace c =
     (c = 0x0009 \<or> c = 0x000A \<or> c = 0x000B \<or> c = 0x000C \<or> c = 0x000D \<or> c = 0x0020 \<or>
      c = 0x00A0 \<or> c = 0x1680 \<or> (0x2000 \<le> c \<and> c \<le> 0x200A) \<or> c = 0x2028 \<or>
      c = 0x2029 \<or> c = 0x202F \<or> c = 0x205F \<or> c = 0x3000 \<or> c = 0xFEFF)"

definition trim :: "jsstring \<Rightarrow> jsstring" where
  "trim s = rev (dropWhile isWhiteSpace (rev (dropWhile isWhiteSpace s)))"

subsection \<open>Exceptions\<close>

datatype exn = JsError (message: jsstring)

definition js_bind :: "exn + 'a \<Rightarrow> ('a \<Rightarrow> exn + 'b) \<Rightarrow> exn + 'b" where
  "js_bind m f = (case m of Inl e \<Rightarrow> Inl e | Inr x \<Rightarrow> f x)"

definition try_catch :: "exn + 'a \<Rightarrow> (exn \<Rightarrow> exn + 'a) \<Rightarrow> exn + 'a" where
  "try_catch m h = (case m of Inl e \<Rightarrow> h e | Inr x \<Rightarrow> Inr x)"

text \<open>
  The truth value JavaScript gives a \<^verbatim>\<open>string | null | undefined\<close>: \<^verbatim>\<open>null\<close>,
  \<^verbatim>\<open>undefined\<close> (both \<open>None\<close>) and the empty string are falsy.
\<close>

definition truthy :: "jsstring option \<Rightarrow> bool" where
  "truthy v = (case v of None \<Rightarrow> False | Some s \<Rightarrow> s \<noteq> [])"

subsection \<open>Data model\<close>

datatype SeedType = Bip | Raw | Dev

record AddressState =
  address :: "jsstring option"
  deriveError :: "jsstring option"
  derivePath :: jsstring
  isSeedValid :: bool
  pairType :: jsstring
  seed :: jsstring
  seedType :: SeedType

text \<open>
  A junction of a parsed derivation path, as far as the modal reads it, and the
  imported functions. \<open>keyExtractSuri\<close> gives the \<^verbatim>\<open>path\<close> of the extracted result;
  \<open>createFromUri\<close> takes the secret URI and the key pair type and gives the
  \<^verbatim>\<open>address\<close> of the created pair.
\<close>

record DeriveJunction =
  chainCode :: "8 word list"
  isSoft :: bool

record 'e Lib =
  keyExtractSuri :: "jsstring \<Rightarrow> exn + DeriveJunction list"
  isHex :: "jsstring \<Rightarrow> bool"
  createFromUri :: "jsstring \<Rightarrow> jsstring \<Rightarrow> exn + jsstring"
  mnemonicGenerate :: "'e \<Rightarrow> jsstring \<times> 'e"
  mnemonicValidate :: "jsstring \<Rightarrow> bool"
  randomAsU8a :: "'e \<Rightarrow> 8 word list \<times> 'e"
  u8aToHex :: "8 word list \<Rightarrow> jsstring"
  DEV_PHRASE :: jsstring

subsection \<open>The operations\<close>

definition DEFAULT_PAIR_TYPE :: jsstring where
  "DEFAULT_PAIR_TYPE = ascii ''sr25519''"

definition deriveValidate :: "'e Lib \<Rightarrow> jsstring \<Rightarrow> jsstring \<Rightarrow> jsstring \<Rightarrow> exn + jsstring option" where
  "deriveValidate L seed' derivePath' pairType' =
     try_catch
       (js_bind (keyExtractSuri L (seed' @ derivePath')) (\<lambda>path.
          if pairType' = ascii ''ed25519'' \<and> list_ex isSoft path
          then Inr (Some (ascii ''Soft derivation paths are not allowed on ed25519''))
          else Inr None))
       (\<lambda>error. Inr (Some (message error)))"

definition isHexSeed :: "'e Lib \<Rightarrow> jsstring \<Rightarrow> bool" where
  "isHexSeed L seed' = (isHex L seed' \<and> length seed' = 66)"

definition rawValidate :: "'e Lib \<Rightarrow> jsstring \<Rightarrow> bool" where
  "rawValidate L seed' = ((length seed' > 0 \<and> length seed' \<le> 32) \<or> isHexSeed L seed')"

definition addressFromSeed :: "'e Lib \<Rightarrow> jsstring \<Rightarrow> jsstring \<Rightarrow> jsstring \<Rightarrow> exn + jsstring" where
  "addressFromSeed L phrase derivePath' pairType' =
     createFromUri L (trim phrase @ derivePath') pairType'"

definition newSeed :: "'e Lib \<Rightarrow> 'e \<Rightarrow> jsstring option \<Rightarrow> SeedType \<Rightarrow> jsstring \<times> 'e" where
  "newSeed L ent seed' seedType' =
     (case seedType' of
        Bip \<Rightarrow> mnemonicGenerate L ent
      | Dev \<Rightarrow> (DEV_PHRASE L, ent)
      | Raw \<Rightarrow>
          (case (if truthy seed' then seed' else None) of
             Some s \<Rightarrow> (s, ent)
           | None \<Rightarrow> (let (bytes, ent') = randomAsU8a L ent in (u8aToHex L bytes, ent'))))"

definition generateSeed ::
    "'e Lib \<Rightarrow> 'e \<Rightarrow> jsstring option \<Rightarrow> jsstring \<Rightarrow> SeedType \<Rightarrow> jsstring option \<Rightarrow> (exn + AddressState) \<times> 'e" where
  "generateSeed L ent seed0 derivePath' seedType' pairType0 =
     (let pairType' = (case pairType0 of None \<Rightarrow> DEFAULT_PAIR_TYPE | Some p \<Rightarrow> p);
          (seed', ent') = newSeed L ent seed0 seedType'
      in (js_bind (addressFromSeed L seed' derivePath' pairType') (\<lambda>address'.
            Inr \<lparr> address = Some address',
                  deriveError = None,
                  derivePath = derivePath',
                  isSeedValid = True,
                  pairType = pairType',
                  seed = seed',
                  seedType = seedType' \<rparr>),
          ent'))"

definition updateAddress :: "'e Lib \<Rightarrow> jsstring \<Rightarrow> jsstring \<Rightarrow> SeedType \<Rightarrow> jsstring \<Rightarrow> exn + AddressState" where
  "updateAddress L seed' derivePath' seedType' pairType' =
     js_bind (deriveValidate L seed' derivePath' pairType') (\<lambda>deriveError'.
       let isSeedValid0 = (if seedType' = Raw then rawValidate L seed' else mnemonicValidate L seed')
       in js_bind
            (if \<not> truthy deriveError' \<and> isSeedValid0
             then try_catch
                    (js_bind (addressFromSeed L seed' derivePath' pairType') (\<lambda>a. Inr (Some a, isSeedValid0)))
                    (\<lambda>error. Inr (None, False))
             else Inr (None, isSeedValid0))
            (\<lambda>(address', isSeedValid').
               Inr \<lparr> address = address',
                     deriveError = deriveError',
                     derivePath = derivePath',
                     isSeedValid = isSeedValid',
                     pairType = pairType',
                     seed = seed',
                     seedType = seedType' \<rparr>))"

subsection \<open>An instance of the imported functions\<close>

text \<open>
  A small stand-in for the keyring and the crypto utilities, on which the
  theorems below are instantiated at concrete inputs. Its secret URI parser
  splits at \<^verbatim>\<open>/\<close>: the phrase comes first and must not be empty, \<^verbatim>\<open>/name\<close> is a soft
  junction, \<^verbatim>\<open>//name\<close> a hard one, \<^verbatim>\<open>///\<close> starts the password. A phrase of 12,
  15, 18, 21 or 24 words is taken as a mnemonic, and creating a pair from it
  throws unless it is the one mnemonic the instance knows. Its entropy state is a
  counter.
\<close>

fun splitOn :: "'a \<Rightarrow> 'a list \<Rightarrow> 'a list list" where
  "splitOn d [] = [[]]"
| "splitOn d (x # xs) =
     (if x = d then [] # splitOn d xs
      else (case splitOn d xs of [] \<Rightarrow> [[x]] | y # ys \<Rightarrow> (x # y) # ys))"

fun junctionsOf :: "jsstring list \<Rightarrow> exn + DeriveJunction list" where
  "junctionsOf [] = Inr []"
| "junctionsOf [[]] = Inl (JsError (ascii ''Re-constructed path does not match input''))"
| "junctionsOf ([] # [] # rest) = Inr []"
| "junctionsOf ([] # b # rest) =
     js_bind (junctionsOf rest) (\<lambda>js. Inr (\<lparr> chainCode = map ucast b, isSoft = False \<rparr> # js))"
| "junctionsOf (a # rest) =
     js_bind (junctionsOf rest) (\<lambda>js. Inr (\<lparr> chainCode = map ucast a, isSoft = True \<rparr> # js))"

definition demoExtract :: "jsstring \<Rightarrow> exn + DeriveJunction list" where
  "demoExtract suri =
     (case splitOn (0x2F :: 16 word) suri of
        [] \<Rightarrow> Inl (JsError (ascii ''Unable to match provided value to a secret URI''))
      | phrase # parts \<Rightarrow>
          if phrase = [] then Inl (JsError (ascii ''Unable to match provided value to a secret URI''))
          else junctionsOf parts)"

definition isHexDigit :: "16 word \<Rightarrow> bool" where
  "isHexDigit c = ((0x30 \<le> c \<and> c \<le> 0x39) \<or> (0x41 \<le> c \<and> c \<le> 0x46) \<or> (0x61 \<le> c \<and> c \<le> 0x66))"

definition demoIsHex :: "jsstring \<Rightarrow> bool" where
  "demoIsHex s = (take 2 s = ascii ''0x'' \<and> list_all isHexDigit (drop 2 s) \<and> even (length s))"

definition demoPhrase :: jsstring where
  "demoPhrase = ascii ''bottom drive obey lake curtain smoke basket hold race lonely fit walk''"

definition demoCreate :: "jsstring \<Rightarrow> jsstring \<Rightarrow> exn + jsstring" where
  "demoCreate suri pairType' =
     js_bind (demoExtract suri) (\<lambda>path.
       if pairType' = ascii ''ed25519'' \<and> list_ex isSoft path
       then Inl (JsError (ascii ''A soft key was found in the path (and is unsupported)''))
       else if length (splitOn (0x20 :: 16 word) (takeWhile (\<lambda>c. c \<noteq> 0x2F) suri))
                 \<in> set [12, 15, 18, 21, 24] \<and>
               takeWhile (\<lambda>c. c \<noteq> 0x2F) suri \<noteq> demoPhrase
       then Inl (JsError (ascii ''Invalid bip39 mnemonic specified''))
       else Inr (ascii ''addr('' @ pairType' @ ascii '','' @ suri @ ascii '')''))"

definition hexDigit :: "nat \<Rightarrow> 16 word" where
  "hexDigit n = (if n < 10 then word_of_nat (48 + n) else word_of_nat (87 + n))"

definition demoLib :: "nat Lib" where
  "demoLib =
     \<lparr> keyExtractSuri = demoExtract,
       isHex = demoIsHex,
       createFromUri = demoCreate,
       mnemonicGenerate = (\<lambda>n. (demoPhrase, Suc n)),
       mnemonicValidate = (\<lambda>s. s = demoPhrase),
       randomAsU8a = (\<lambda>n. (replicate 32 (word_of_nat n), Suc n)),
       u8aToHex = (\<lambda>bytes. ascii ''0x'' @ concat (map (\<lambda>b. [hexDigit (unat b div 16), hexDigit (unat b mod 16)]) bytes)),
       DEV_PHRASE = demoPhrase \<rparr>"

text \<open>
  A second instance: it answers the parser, \<open>isHex\<close>, \<open>mnemonicValidate\<close> and
  \<open>createFromUri\<close> as the first does, and differs in everything else (the entropy
  state and what is drawn from it, the hex rendering, the development phrase).
\<close>

definition demoLib2 :: "bool Lib" where
  "demoLib2 =
     \<lparr> keyExtractSuri = demoExtract,
       isHex = demoIsHex,
       createFromUri = demoCreate,
       mnemonicGenerate = (\<lambda>b. (ascii ''legal winner thank year wave sausage worth useful legal winner thank yellow'', \<not> b)),
       mnemonicValidate = (\<lambda>s. s = demoPhrase),
       randomAsU8a = (\<lambda>b. (replicate 32 0xFF, \<not> b)),
       u8aToHex = (\<lambda>bytes. ascii ''0x'' @ concat (map (\<lambda>b. [hexDigit (unat b mod 16), hexDigit (unat b div 16)]) bytes)),
       DEV_PHRASE = ascii ''legal winner thank year wave sausage worth useful legal winner thank yellow'' \<rparr>"

section \<open>Properties\<close>

subsection \<open>Auxiliary facts\<close>

text \<open>Trimming a trimmed string changes nothing.\<close>

lemma dropWhile_trim_end:
  "dropWhile P (rev (dropWhile P (rev (dropWhile P s)))) = rev (dropWhile P (rev (dropWhile P s)))"
proof -
  define u where "u = dropWhile P s"
  define d where "d = dropWhile P (rev u)"
  show ?thesis
  proof (cases "d = []")
    case True
    then show ?thesis unfolding d_def u_def by (simp only: rev.simps dropWhile.simps)
  next
    case False
    have "rev u = takeWhile P (rev u) @ d"
      by (simp add: d_def)
    then have "u = rev d @ rev (takeWhile P (rev u))"
      by (metis rev_append rev_rev_ident)
    with False have hd_eq: "hd u = hd (rev d)" and "u \<noteq> []"
      by (metis hd_append2 rev_is_Nil_conv, metis Nil_is_append_conv rev_is_Nil_conv)
    then have "\<not> P (hd u)"
      unfolding u_def by (metis hd_dropWhile)
    with hd_eq False have "dropWhile P (rev d) = rev d"
      by (cases "rev d") auto
    then show ?thesis by (simp add: d_def u_def)
  qed
qed

lemma trim_idem: "trim (trim s) = trim s"
  by (simp add: trim_def dropWhile_trim_end)

text \<open>
  \<open>deriveValidate\<close> catches whatever the parser throws, and \<open>updateAddress\<close> whatever
  the address computation throws: both always return, and their results have a
  closed form.
\<close>

lemma ascii_Nil_iff: "ascii s = [] \<longleftrightarrow> s = []"
  by (simp add: ascii_def)

lemma deriveValidate_returns:
  "deriveValidate L s d p =
     Inr (case keyExtractSuri L (s @ d) of
            Inl e \<Rightarrow> Some (message e)
          | Inr path \<Rightarrow>
              if p = ascii ''ed25519'' \<and> list_ex isSoft path
              then Some (ascii ''Soft derivation paths are not allowed on ed25519'')
              else None)"
  by (simp add: deriveValidate_def try_catch_def js_bind_def split: sum.splits)

lemma deriveValidate_total: "\<exists>de. deriveValidate L s d p = Inr de"
  by (simp add: deriveValidate_returns)

lemma deriveValidate_None_or_message:
  assumes "deriveValidate L s d p = Inr (Some m)"
  shows "m = ascii ''Soft derivation paths are not allowed on ed25519'' \<or>
         keyExtractSuri L (s @ d) = Inl (JsError m)"
  using assms
  by (cases "keyExtractSuri L (s @ d)")
     (auto simp: deriveValidate_returns split: if_splits exn.splits intro: exn.expand)

lemma deriveValidate_truthy:
  assumes "deriveValidate L s d p = Inr de" and "keyExtractSuri L (s @ d) \<noteq> Inl (JsError [])"
  shows "truthy de \<longleftrightarrow> de \<noteq> None"
proof (cases de)
  case None
  then show ?thesis by (simp add: truthy_def)
next
  case (Some m)
  with assms(1) deriveValidate_None_or_message
  have "m = ascii ''Soft derivation paths are not allowed on ed25519'' \<or>
        keyExtractSuri L (s @ d) = Inl (JsError m)"
    by blast
  with assms(2) have "m \<noteq> []"
    by (auto simp: ascii_def)
  with Some show ?thesis by (simp add: truthy_def)
qed

lemma updateAddress_unfold:
  assumes "deriveValidate L s d p = Inr de"
  shows "updateAddress L s d k p =
     Inr \<lparr> address =
             (if \<not> truthy de \<and> (if k = Raw then rawValidate L s else mnemonicValidate L s)
              then (case addressFromSeed L s d p of Inl e \<Rightarrow> None | Inr a \<Rightarrow> Some a)
              else None),
           deriveError = de,
           derivePath = d,
           isSeedValid =
             ((if k = Raw then rawValidate L s else mnemonicValidate L s) \<and>
              (truthy de \<or> (case addressFromSeed L s d p of Inl e \<Rightarrow> False | Inr a \<Rightarrow> True))),
           pairType = p,
           seed = s,
           seedType = k \<rparr>"
  using assms
  by (simp add: updateAddress_def js_bind_def try_catch_def Let_def split: sum.splits)

lemma updateAddress_total: "\<exists>st. updateAddress L s d k p = Inr st"
  using deriveValidate_total [of L s d p] updateAddress_unfold by blast

lemma generateSeed_Inr:
  assumes "fst (generateSeed L ent s0 d k p0) = Inr st"
  shows "\<exists>a. address st = Some a \<and> deriveError st = None \<and> isSeedValid st \<and>
             derivePath st = d \<and> seedType st = k \<and> seed st = fst (newSeed L ent s0 k) \<and>
             pairType st = (case p0 of None \<Rightarrow> DEFAULT_PAIR_TYPE | Some q \<Rightarrow> q) \<and>
             addressFromSeed L (seed st) d (pairType st) = Inr a"
  using assms
  by (auto simp: generateSeed_def js_bind_def Let_def split: sum.splits prod.splits)

subsection \<open>The operations on the instance\<close>

text \<open>Concrete runs, used below to instantiate the theorems.\<close>

lemmas demo_defs =
  demoLib_def demoExtract_def demoCreate_def demoIsHex_def demoPhrase_def ascii_def
  js_bind_def try_catch_def truthy_def

lemmas op_defs =
  updateAddress_def deriveValidate_def generateSeed_def newSeed_def DEFAULT_PAIR_TYPE_def
  addressFromSeed_def rawValidate_def isHexSeed_def trim_def isWhiteSpace_def

lemma demoExtract_hard:
  "keyExtractSuri demoLib (ascii ''abc'' @ ascii ''//hard'') =
     Inr [\<lparr> chainCode = map ucast (ascii ''hard''), isSoft = False \<rparr>]"
  by (simp add: demo_defs)


lemma demoExtract_slash:
  "keyExtractSuri demoLib (ascii ''abc'' @ ascii ''/'') =
     Inl (JsError (ascii ''Re-constructed path does not match input''))"
  by (simp add: demo_defs)

lemma trim_abc: "trim (ascii '' abc '') = ascii ''abc''"
  by (simp add: trim_def isWhiteSpace_def ascii_def)

lemma trim_blank: "trim (ascii '' '') = []"
  by (simp add: trim_def isWhiteSpace_def ascii_def)

lemma updateAddress_hard:
  "updateAddress demoLib (ascii '' abc '') (ascii ''//hard'') Raw (ascii ''sr25519'') =
     Inr \<lparr> address = Some (ascii ''addr(sr25519,abc//hard)''),
           deriveError = None,
           derivePath = ascii ''//hard'',
           isSeedValid = True,
           pairType = ascii ''sr25519'',
           seed = ascii '' abc '',
           seedType = Raw \<rparr>"
  by (simp add: op_defs demo_defs)

lemma updateAddress_soft:
  "updateAddress demoLib (ascii ''abc'') (ascii ''/soft'') Raw (ascii ''ed25519'') =
     Inr \<lparr> address = None,
           deriveError = Some (ascii ''Soft derivation paths are not allowed on ed25519''),
           derivePath = ascii ''/soft'',
           isSeedValid = True,
           pairType = ascii ''ed25519'',
           seed = ascii ''abc'',
           seedType = Raw \<rparr>"
  by (simp add: op_defs demo_defs)

lemma updateAddress_slash:
  "updateAddress demoLib (ascii ''abc'') (ascii ''/'') Bip (ascii ''sr25519'') =
     Inr \<lparr> address = None,
           deriveError = Some (ascii ''Re-constructed path does not match input''),
           derivePath = ascii ''/'',
           isSeedValid = False,
           pairType = ascii ''sr25519'',
           seed = ascii ''abc'',
           seedType = Bip \<rparr>"
  by (simp add: op_defs demo_defs)

lemma updateAddress_blank:
  "updateAddress demoLib (ascii ''  '') [] Raw (ascii ''sr25519'') =
     Inr \<lparr> address = None,
           deriveError = None,
           derivePath = [],
           isSeedValid = False,
           pairType = ascii ''sr25519'',
           seed = ascii ''  '',
           seedType = Raw \<rparr>"
  by (simp add: op_defs demo_defs)

lemma addressFromSeed_blank:
  "addressFromSeed demoLib (ascii ''  '') [] (ascii ''sr25519'') =
     Inl (JsError (ascii ''Unable to match provided value to a secret URI''))"
  by (simp add: op_defs demo_defs)

lemma generateSeed_dev:
  "generateSeed demoLib 0 None (ascii ''//hard'') Dev None =
     (Inr \<lparr> address = Some (ascii ''addr(sr25519,bottom drive obey lake curtain smoke basket hold race lonely fit walk//hard)''),
            deriveError = None,
            derivePath = ascii ''//hard'',
            isSeedValid = True,
            pairType = ascii ''sr25519'',
            seed = ascii ''bottom drive obey lake curtain smoke basket hold race lonely fit walk'',
            seedType = Dev \<rparr>, 0)"
  by (simp add: op_defs demo_defs)

lemma generateSeed_raw:
  "generateSeed demoLib 0 (Some (ascii ''abc'')) [] Raw None =
     (Inr \<lparr> address = Some (ascii ''addr(sr25519,abc)''),
            deriveError = None,
            derivePath = [],
            isSeedValid = True,
            pairType = ascii ''sr25519'',
            seed = ascii ''abc'',
            seedType = Raw \<rparr>, 0)"
  by (simp add: op_defs demo_defs)

lemma generateSeed_slash:
  "generateSeed demoLib 0 None (ascii ''/'') Bip None =
     (Inl (JsError (ascii ''Re-constructed path does not match input'')), 1)"
  by (simp add: op_defs demo_defs)

lemma newSeed_raw_given:
  "newSeed demoLib 0 (Some (ascii ''abc'')) Raw = (ascii ''abc'', 0)"
  "newSeed demoLib 0 (Some (ascii ''xyz'')) Raw = (ascii ''xyz'', 0)"
  by (simp_all add: op_defs demo_defs)

lemma DEV_PHRASE_demo:
  "DEV_PHRASE demoLib = ascii ''bottom drive obey lake curtain smoke basket hold race lonely fit walk''"
  by (simp add: demo_defs)

lemma rawValidate_words:
  "rawValidate demoLib (ascii ''a b c d e f g h i j k l'')"
  by (simp add: rawValidate_def ascii_def)

lemma updateAddress_words_soft:
  "updateAddress demoLib (ascii ''a b c d e f g h i j k l'') (ascii ''/soft'') Raw (ascii ''ed25519'') =
     Inr \<lparr> address = None,
           deriveError = Some (ascii ''Soft derivation paths are not allowed on ed25519''),
           derivePath = ascii ''/soft'',
           isSeedValid = True,
           pairType = ascii ''ed25519'',
           seed = ascii ''a b c d e f g h i j k l'',
           seedType = Raw \<rparr>"
  by (simp add: op_defs demo_defs)

lemma updateAddress_words:
  "updateAddress demoLib (ascii ''a b c d e f g h i j k l'') [] Raw (ascii ''sr25519'') =
     Inr \<lparr> address = None,
           deriveError = None,
           derivePath = [],
           isSeedValid = False,
           pairType = ascii ''sr25519'',
           seed = ascii ''a b c d e f g h i j k l'',
           seedType = Raw \<rparr>"
  by (simp add: op_defs demo_defs)

lemma addressFromSeed_words:
  "addressFromSeed demoLib (ascii ''a b c d e f g h i j k l'') [] (ascii ''sr25519'') =
     Inl (JsError (ascii ''Invalid bip39 mnemonic specified''))"
  by (simp add: op_defs demo_defs)

lemma updateAddress_abc_hard:
  "updateAddress demoLib (ascii ''abc'') (ascii ''//hard'') Raw (ascii ''sr25519'') =
     Inr \<lparr> address = Some (ascii ''addr(sr25519,abc//hard)''),
           deriveError = None,
           derivePath = ascii ''//hard'',
           isSeedValid = True,
           pairType = ascii ''sr25519'',
           seed = ascii ''abc'',
           seedType = Raw \<rparr>"
  by (simp add: op_defs demo_defs)

lemma addressFromSeed_abc_hard:
  "addressFromSeed demoLib (ascii ''abc'') (ascii ''//hard'') (ascii ''sr25519'') =
     Inr (ascii ''addr(sr25519,abc//hard)'')"
  by (simp add: op_defs demo_defs)

lemma demoLib2_answers:
  "keyExtractSuri demoLib2 = keyExtractSuri demoLib"
  "isHex demoLib2 = isHex demoLib"
  "mnemonicValidate demoLib2 = mnemonicValidate demoLib"
  "createFromUri demoLib2 = createFromUri demoLib"
  by (simp_all add: demoLib_def demoLib2_def)

subsection \<open>Address and derivation error exclude each other\<close>

text \<open>
  C1. An \<open>AddressState\<close> returned by \<open>updateAddress\<close> or \<open>generateSeed\<close> never has
  both an address and a derivation error. For \<open>updateAddress\<close> this holds as the
  modal itself tests for an error, by truth value (\<^verbatim>\<open>!deriveError\<close>); it holds for
  \<^verbatim>\<open>deriveError !== null\<close> as well whenever the parser did not throw an error with
  an empty message on this input. For \<open>generateSeed\<close> the error is always null.
\<close>

theorem address_excludes_deriveError:
  "(\<forall>st. updateAddress L s d k p = Inr st \<longrightarrow>
      \<not> (address st \<noteq> None \<and> truthy (deriveError st)) \<and>
      (keyExtractSuri L (s @ d) \<noteq> Inl (JsError []) \<longrightarrow>
         \<not> (address st \<noteq> None \<and> deriveError st \<noteq> None))) \<and>
   (\<forall>st. fst (generateSeed L ent s0 d' k' p0) = Inr st \<longrightarrow>
      \<not> (address st \<noteq> None \<and> deriveError st \<noteq> None))"
proof (intro conjI allI impI)
  fix st
  assume upd: "updateAddress L s d k p = Inr st"
  obtain de where de: "deriveValidate L s d p = Inr de"
    using deriveValidate_total by blast
  from upd show "\<not> (address st \<noteq> None \<and> truthy (deriveError st))"
    unfolding updateAddress_unfold [OF de] by auto
  assume "keyExtractSuri L (s @ d) \<noteq> Inl (JsError [])"
  then have "truthy de \<longleftrightarrow> de \<noteq> None"
    using de by (rule deriveValidate_truthy [rotated])
  with upd show "\<not> (address st \<noteq> None \<and> deriveError st \<noteq> None)"
    unfolding updateAddress_unfold [OF de] by auto
next
  fix st
  assume "fst (generateSeed L ent s0 d' k' p0) = Inr st"
  then show "\<not> (address st \<noteq> None \<and> deriveError st \<noteq> None)"
    using generateSeed_Inr [of L ent s0 d' k' p0 st] by auto
qed

theorem address_excludes_deriveError_witness:
  "keyExtractSuri demoLib (ascii '' abc '' @ ascii ''//hard'') \<noteq> Inl (JsError []) \<and>
   (\<exists>st. updateAddress demoLib (ascii '' abc '') (ascii ''//hard'') Raw (ascii ''sr25519'') = Inr st \<and>
         address st \<noteq> None \<and> deriveError st = None) \<and>
   (\<exists>st. fst (generateSeed demoLib 0 None (ascii ''//hard'') Dev None) = Inr st \<and>
         address st \<noteq> None \<and> deriveError st = None)"
proof -
  have h: "keyExtractSuri demoLib (ascii '' abc '' @ ascii ''//hard'') \<noteq> Inl (JsError [])"
    by (simp add: demo_defs)
  show ?thesis
    using h address_excludes_deriveError
      [of demoLib "ascii '' abc ''" "ascii ''//hard''" Raw "ascii ''sr25519''" 0 None
          "ascii ''//hard''" Dev None]
    by (simp add: updateAddress_hard generateSeed_dev)
qed

subsection \<open>Soft junctions on ed25519\<close>



subsection \<open>Seed well-formedness\<close>

text \<open>
  C3. For every string \<open>s\<close>, \<open>rawValidate\<close> returns true exactly when the length of
  \<open>s\<close> is between 1 and 32 inclusive, or \<open>s\<close> is a hex string (the imported \<open>isHex\<close>
  accepts it) of exactly 66 code units; for every other string it returns false.
\<close>

theorem rawValidate_iff:
  "rawValidate L s \<longleftrightarrow> (1 \<le> length s \<and> length s \<le> 32) \<or> (isHex L s \<and> length s = 66)"
  by (auto simp: rawValidate_def isHexSeed_def Suc_le_eq)

theorem rawValidate_iff_witness:
  "rawValidate demoLib (ascii ''abc'') \<and>
   rawValidate demoLib
     (ascii ''0x0000000000000000000000000000000000000000000000000000000000000000'') \<and>
   \<not> rawValidate demoLib [] \<and>
   \<not> rawValidate demoLib
     (ascii ''bottom drive obey lake curtain smoke basket hold race lonely fit walk'')"
  using rawValidate_iff [of demoLib "ascii ''abc''"]
    rawValidate_iff [of demoLib
      "ascii ''0x0000000000000000000000000000000000000000000000000000000000000000''"]
    rawValidate_iff [of demoLib "[]"]
    rawValidate_iff [of demoLib
      "ascii ''bottom drive obey lake curtain smoke basket hold race lonely fit walk''"]
  by (simp add: ascii_def demoLib_def demoIsHex_def isHexDigit_def)

subsection \<open>No exception escapes updateAddress\<close>

text \<open>
  C4. \<open>updateAddress\<close> always returns a state and never throws: when the parser
  throws, the message of what it threw is the derivation error of the state; and
  when the address computation is reached (no derivation error, seed check
  passed) and throws, the state has \<open>isSeedValid\<close> false and no address.
\<close>

theorem updateAddress_never_throws:
  "\<exists>st. updateAddress L s d k p = Inr st \<and>
     (\<forall>e. keyExtractSuri L (s @ d) = Inl e \<longrightarrow> deriveError st = Some (message e)) \<and>
     (\<forall>e. \<not> truthy (deriveError st) \<longrightarrow>
          (if k = Raw then rawValidate L s else mnemonicValidate L s) \<longrightarrow>
          addressFromSeed L s d p = Inl e \<longrightarrow>
          \<not> isSeedValid st \<and> address st = None)"
proof -
  obtain de where de: "deriveValidate L s d p = Inr de"
    using deriveValidate_total by blast
  have "\<forall>e. keyExtractSuri L (s @ d) = Inl e \<longrightarrow> de = Some (message e)"
    using de by (auto simp: deriveValidate_returns)
  then show ?thesis
    unfolding updateAddress_unfold [OF de] by auto
qed

theorem updateAddress_never_throws_witness:
  "(\<exists>st. updateAddress demoLib (ascii ''abc'') (ascii ''/'') Bip (ascii ''sr25519'') = Inr st \<and>
         deriveError st = Some (ascii ''Re-constructed path does not match input'')) \<and>
   rawValidate demoLib (ascii ''  '') \<and>
   addressFromSeed demoLib (ascii ''  '') [] (ascii ''sr25519'') =
     Inl (JsError (ascii ''Unable to match provided value to a secret URI'')) \<and>
   (\<exists>st. updateAddress demoLib (ascii ''  '') [] Raw (ascii ''sr25519'') = Inr st \<and>
         \<not> truthy (deriveError st) \<and> \<not> isSeedValid st \<and> address st = None)"
proof -
  have r: "rawValidate demoLib (ascii ''  '')"
    by (simp add: rawValidate_def ascii_def)
  show ?thesis
    using r demoExtract_slash addressFromSeed_blank
      updateAddress_never_throws [of demoLib "ascii ''abc''" "ascii ''/''" Bip "ascii ''sr25519''"]
      updateAddress_never_throws [of demoLib "ascii ''  ''" "[]" Raw "ascii ''sr25519''"]
    by (simp add: updateAddress_slash updateAddress_blank truthy_def)
qed

subsection \<open>What generateSeed returns\<close>

text \<open>
  C5, as the code has it. The seed \<open>generateSeed\<close> uses is a new random mnemonic
  for \<open>Bip\<close>, the development phrase for \<open>Dev\<close>, and for \<open>Raw\<close> the seed the caller
  supplied when that is a non-empty string, otherwise fresh random bytes rendered
  as hex. Whenever the address computation for that seed returns, \<open>generateSeed\<close>
  returns a state with that address, a null derivation error and \<open>isSeedValid\<close>
  true, echoing the derivation path, the key pair type (\<^verbatim>\<open>sr25519\<close> when none is
  given) and the seed type.
\<close>

theorem generateSeed_result:
  assumes "addressFromSeed L (fst (newSeed L ent s0 k)) d
             (case p0 of None \<Rightarrow> DEFAULT_PAIR_TYPE | Some q \<Rightarrow> q) = Inr a"
  shows "generateSeed L ent s0 d k p0 =
           (Inr \<lparr> address = Some a,
                  deriveError = None,
                  derivePath = d,
                  isSeedValid = True,
                  pairType = (case p0 of None \<Rightarrow> DEFAULT_PAIR_TYPE | Some q \<Rightarrow> q),
                  seed = fst (newSeed L ent s0 k),
                  seedType = k \<rparr>,
            snd (newSeed L ent s0 k)) \<and>
         newSeed L ent s0 Bip = mnemonicGenerate L ent \<and>
         newSeed L ent s0 Dev = (DEV_PHRASE L, ent) \<and>
         newSeed L ent s0 Raw =
           (case s0 of
              Some x \<Rightarrow>
                if x = [] then (u8aToHex L (fst (randomAsU8a L ent)), snd (randomAsU8a L ent))
                else (x, ent)
            | None \<Rightarrow> (u8aToHex L (fst (randomAsU8a L ent)), snd (randomAsU8a L ent)))"
proof (intro conjI)
  show "generateSeed L ent s0 d k p0 =
           (Inr \<lparr> address = Some a,
                  deriveError = None,
                  derivePath = d,
                  isSeedValid = True,
                  pairType = (case p0 of None \<Rightarrow> DEFAULT_PAIR_TYPE | Some q \<Rightarrow> q),
                  seed = fst (newSeed L ent s0 k),
                  seedType = k \<rparr>,
            snd (newSeed L ent s0 k))"
    using assms by (cases "newSeed L ent s0 k") (simp add: generateSeed_def js_bind_def Let_def)
  show "newSeed L ent s0 Bip = mnemonicGenerate L ent"
    by (simp add: newSeed_def)
  show "newSeed L ent s0 Dev = (DEV_PHRASE L, ent)"
    by (simp add: newSeed_def)
  show "newSeed L ent s0 Raw =
           (case s0 of
              Some x \<Rightarrow>
                if x = [] then (u8aToHex L (fst (randomAsU8a L ent)), snd (randomAsU8a L ent))
                else (x, ent)
            | None \<Rightarrow> (u8aToHex L (fst (randomAsU8a L ent)), snd (randomAsU8a L ent)))"
    by (simp add: newSeed_def truthy_def split: option.splits prod.splits)
qed

theorem generateSeed_result_witness:
  "addressFromSeed demoLib (fst (newSeed demoLib 0 (Some (ascii ''abc'')) Raw)) []
     (case None of None \<Rightarrow> DEFAULT_PAIR_TYPE | Some q \<Rightarrow> q) = Inr (ascii ''addr(sr25519,abc)'') \<and>
   generateSeed demoLib 0 (Some (ascii ''abc'')) [] Raw None =
     (Inr \<lparr> address = Some (ascii ''addr(sr25519,abc)''),
            deriveError = None,
            derivePath = [],
            isSeedValid = True,
            pairType = ascii ''sr25519'',
            seed = ascii ''abc'',
            seedType = Raw \<rparr>, 0)"
proof -
  have h: "addressFromSeed demoLib (fst (newSeed demoLib 0 (Some (ascii ''abc'')) Raw)) []
     (case None of None \<Rightarrow> DEFAULT_PAIR_TYPE | Some q \<Rightarrow> q) = Inr (ascii ''addr(sr25519,abc)'')"
    by (simp add: op_defs demo_defs)
  show ?thesis
    using h generateSeed_result [OF h]
    by (simp add: newSeed_raw_given DEFAULT_PAIR_TYPE_def)
qed

text \<open>
  The claim as stated fails twice. With a seed supplied, the raw seed is that
  seed and not fresh random bytes, so it is not determined by the seed type; and
  \<open>generateSeed\<close> does not catch what the address computation throws: on the
  derivation path \<^verbatim>\<open>/\<close> the exception escapes.
\<close>

theorem generateSeed_fresh_counterexample:
  "fst (newSeed demoLib 0 (Some (ascii ''abc'')) Raw) = ascii ''abc'' \<and>
   fst (newSeed demoLib 0 (Some (ascii ''xyz'')) Raw) = ascii ''xyz'' \<and>
   fst (newSeed demoLib 0 (Some (ascii ''abc'')) Raw) \<noteq> u8aToHex demoLib (fst (randomAsU8a demoLib 0)) \<and>
   fst (generateSeed demoLib 0 None (ascii ''/'') Bip None) =
     Inl (JsError (ascii ''Re-constructed path does not match input''))"
  by (simp add: newSeed_raw_given generateSeed_slash) (simp add: demo_defs)

subsection \<open>Seed validity beside a derivation error\<close>

text \<open>
  C6, as the code has it. The derivation error of the returned state is what
  \<open>deriveValidate\<close> gave, and the seed check (\<open>rawValidate\<close> for raw seeds,
  \<open>mnemonicValidate\<close> otherwise) is made whether or not the path was rejected.
  When a derivation error is present \<open>isSeedValid\<close> is the seed check, so a state
  carries both. When none is present \<open>isSeedValid\<close> is the seed check only if
  \<open>addressFromSeed\<close> returns: a seed that passes the check and whose address
  computation throws is reported invalid.
\<close>

theorem isSeedValid_check_and_address:
  "\<exists>st. updateAddress L s d k p = Inr st \<and>
     deriveValidate L s d p = Inr (deriveError st) \<and>
     isSeedValid st =
       ((if k = Raw then rawValidate L s else mnemonicValidate L s) \<and>
        (truthy (deriveError st) \<or>
         (case addressFromSeed L s d p of Inl e \<Rightarrow> False | Inr a \<Rightarrow> True))) \<and>
     (truthy (deriveError st) \<longrightarrow>
        isSeedValid st = (if k = Raw then rawValidate L s else mnemonicValidate L s))"
proof -
  obtain de where de: "deriveValidate L s d p = Inr de"
    using deriveValidate_total by blast
  show ?thesis
    unfolding updateAddress_unfold [OF de] using de by simp
qed

theorem isSeedValid_check_and_address_witness:
  "(\<exists>st. updateAddress demoLib (ascii ''abc'') (ascii ''/soft'') Raw (ascii ''ed25519'') = Inr st \<and>
         truthy (deriveError st) \<and> isSeedValid st \<and> rawValidate demoLib (ascii ''abc'')) \<and>
   (\<exists>st. updateAddress demoLib (ascii ''abc'') (ascii ''//hard'') Raw (ascii ''sr25519'') = Inr st \<and>
         \<not> truthy (deriveError st) \<and> isSeedValid st \<and>
         addressFromSeed demoLib (ascii ''abc'') (ascii ''//hard'') (ascii ''sr25519'') =
           Inr (ascii ''addr(sr25519,abc//hard)'')) \<and>
   (\<exists>st. updateAddress demoLib (ascii ''a b c d e f g h i j k l'') [] Raw (ascii ''sr25519'') = Inr st \<and>
         \<not> truthy (deriveError st) \<and> \<not> isSeedValid st \<and>
         rawValidate demoLib (ascii ''a b c d e f g h i j k l'') \<and>
         addressFromSeed demoLib (ascii ''a b c d e f g h i j k l'') [] (ascii ''sr25519'') =
           Inl (JsError (ascii ''Invalid bip39 mnemonic specified'')))"
  using isSeedValid_check_and_address
      [of demoLib "ascii ''abc''" "ascii ''/soft''" Raw "ascii ''ed25519''"]
    isSeedValid_check_and_address
      [of demoLib "ascii ''abc''" "ascii ''//hard''" Raw "ascii ''sr25519''"]
    isSeedValid_check_and_address
      [of demoLib "ascii ''a b c d e f g h i j k l''" "[]" Raw "ascii ''sr25519''"]
    rawValidate_words
  by (simp add: updateAddress_soft updateAddress_abc_hard updateAddress_words
        addressFromSeed_abc_hard addressFromSeed_words truthy_def ascii_Nil_iff)

text \<open>
  The claim as stated fails: \<open>isSeedValid\<close> is not the seed check independently of
  the derivation error. The raw seed of twelve one-letter words passes
  \<open>rawValidate\<close>. With a rejected path (a soft junction on \<^verbatim>\<open>ed25519\<close>) the state
  reports it valid; with no derivation error the address computation is tried,
  throws on the twelve words that are no mnemonic, and the state reports the same
  seed invalid.
\<close>

theorem isSeedValid_independent_counterexample:
  "rawValidate demoLib (ascii ''a b c d e f g h i j k l'') \<and>
   updateAddress demoLib (ascii ''a b c d e f g h i j k l'') (ascii ''/soft'') Raw (ascii ''ed25519'') =
     Inr \<lparr> address = None,
           deriveError = Some (ascii ''Soft derivation paths are not allowed on ed25519''),
           derivePath = ascii ''/soft'',
           isSeedValid = True,
           pairType = ascii ''ed25519'',
           seed = ascii ''a b c d e f g h i j k l'',
           seedType = Raw \<rparr> \<and>
   updateAddress demoLib (ascii ''a b c d e f g h i j k l'') [] Raw (ascii ''sr25519'') =
     Inr \<lparr> address = None,
           deriveError = None,
           derivePath = [],
           isSeedValid = False,
           pairType = ascii ''sr25519'',
           seed = ascii ''a b c d e f g h i j k l'',
           seedType = Raw \<rparr>"
  using rawValidate_words updateAddress_words_soft updateAddress_words by simp

subsection \<open>An address comes with a valid seed and no error\<close>

text \<open>
  C7. When the state returned by \<open>updateAddress\<close> has an address, it has no
  derivation error (none by truth value; null when the parser did not throw an
  error with an empty message on this input) and \<open>isSeedValid\<close> is true. A state
  returned by \<open>generateSeed\<close> has an address, a null derivation error and
  \<open>isSeedValid\<close> true.
\<close>

theorem address_implies_valid:
  "(\<forall>st. updateAddress L s d k p = Inr st \<longrightarrow> address st \<noteq> None \<longrightarrow>
      \<not> truthy (deriveError st) \<and> isSeedValid st \<and>
      (keyExtractSuri L (s @ d) \<noteq> Inl (JsError []) \<longrightarrow> deriveError st = None)) \<and>
   (\<forall>st. fst (generateSeed L ent s0 d' k' p0) = Inr st \<longrightarrow>
      address st \<noteq> None \<and> deriveError st = None \<and> isSeedValid st)"
proof (intro conjI allI impI)
  fix st
  assume upd: "updateAddress L s d k p = Inr st" and a: "address st \<noteq> None"
  obtain de where de: "deriveValidate L s d p = Inr de"
    using deriveValidate_total by blast
  from upd a show nt: "\<not> truthy (deriveError st)" and "isSeedValid st"
    unfolding updateAddress_unfold [OF de] by (auto split: if_splits sum.splits)
  assume "keyExtractSuri L (s @ d) \<noteq> Inl (JsError [])"
  then have "truthy de \<longleftrightarrow> de \<noteq> None"
    using de by (rule deriveValidate_truthy [rotated])
  with upd nt show "deriveError st = None"
    unfolding updateAddress_unfold [OF de] by auto
next
  fix st
  assume "fst (generateSeed L ent s0 d' k' p0) = Inr st"
  then show "address st \<noteq> None" "deriveError st = None" "isSeedValid st"
    using generateSeed_Inr [of L ent s0 d' k' p0 st] by auto
qed

theorem address_implies_valid_witness:
  "keyExtractSuri demoLib (ascii '' abc '' @ ascii ''//hard'') \<noteq> Inl (JsError []) \<and>
   (\<exists>st. updateAddress demoLib (ascii '' abc '') (ascii ''//hard'') Raw (ascii ''sr25519'') = Inr st \<and>
         address st \<noteq> None \<and> deriveError st = None \<and> isSeedValid st) \<and>
   (\<exists>st. fst (generateSeed demoLib 0 (Some (ascii ''abc'')) [] Raw None) = Inr st \<and>
         address st \<noteq> None \<and> deriveError st = None \<and> isSeedValid st)"
proof -
  have h: "keyExtractSuri demoLib (ascii '' abc '' @ ascii ''//hard'') \<noteq> Inl (JsError [])"
    by (simp add: demo_defs)
  show ?thesis
    using h address_implies_valid
      [of demoLib "ascii '' abc ''" "ascii ''//hard''" Raw "ascii ''sr25519''" 0
          "Some (ascii ''abc'')" "[]" Raw None]
    by (simp add: updateAddress_hard generateSeed_raw)
qed

subsection \<open>The development seed\<close>

text \<open>
  C8. With the seed type \<open>Dev\<close> the seed is the development phrase, whatever the
  supplied seed, the derivation path, the key pair type and the entropy state:
  \<open>newSeed\<close> returns the constant and reads no entropy, and every state
  \<open>generateSeed\<close> returns carries it.
\<close>

theorem generateSeed_dev_phrase:
  "newSeed L ent s0 Dev = (DEV_PHRASE L, ent) \<and>
   (\<forall>st. fst (generateSeed L ent s0 d Dev p0) = Inr st \<longrightarrow> seed st = DEV_PHRASE L) \<and>
   snd (generateSeed L ent s0 d Dev p0) = ent"
proof (intro conjI allI impI)
  show n: "newSeed L ent s0 Dev = (DEV_PHRASE L, ent)"
    by (simp add: newSeed_def)
  show "snd (generateSeed L ent s0 d Dev p0) = ent"
    by (simp add: generateSeed_def n Let_def)
  fix st
  assume "fst (generateSeed L ent s0 d Dev p0) = Inr st"
  then show "seed st = DEV_PHRASE L"
    using generateSeed_Inr [of L ent s0 d Dev p0 st] by (auto simp: n)
qed

theorem generateSeed_dev_phrase_witness:
  "\<exists>st. fst (generateSeed demoLib 0 None (ascii ''//hard'') Dev None) = Inr st \<and>
     seed st = DEV_PHRASE demoLib \<and>
     seed st = ascii ''bottom drive obey lake curtain smoke basket hold race lonely fit walk''"
  using generateSeed_dev_phrase [of demoLib 0 None "ascii ''//hard''" None]
  by (simp add: generateSeed_dev DEV_PHRASE_demo)

subsection \<open>Determinism\<close>

text \<open>
  C9. Two calls of \<open>updateAddress\<close> with the same seed, derivation path, seed type
  and key pair type return the same state, whatever else differs between the two
  calls: let the imported functions at the first call be \<open>L\<close> and at the second
  \<open>L'\<close>, over any two entropy states and entropy types; if the parser, \<open>isHex\<close>,
  \<open>mnemonicValidate\<close> and \<open>createFromUri\<close> answer alike on these arguments, both
  calls return one and the same state. That state is fixed by the arguments and
  those answers: its derivation error is the parser's message or the soft
  junction message, its address is the created one exactly when there is no
  derivation error, the seed check passes and the creation returns, \<open>isSeedValid\<close>
  is the seed check unless the creation was tried and threw, and the four
  arguments are echoed.
\<close>

theorem updateAddress_deterministic:
  assumes "keyExtractSuri L' (s @ d) = keyExtractSuri L (s @ d)"
    and "isHex L' s = isHex L s"
    and "mnemonicValidate L' s = mnemonicValidate L s"
    and "createFromUri L' (trim s @ d) p = createFromUri L (trim s @ d) p"
  shows "\<exists>st. updateAddress L s d k p = Inr st \<and> updateAddress L' s d k p = Inr st \<and>
     deriveError st =
       (case keyExtractSuri L (s @ d) of
          Inl e \<Rightarrow> Some (message e)
        | Inr path \<Rightarrow>
            if p = ascii ''ed25519'' \<and> list_ex isSoft path
            then Some (ascii ''Soft derivation paths are not allowed on ed25519'')
            else None) \<and>
     address st =
       (if \<not> truthy (deriveError st) \<and> (if k = Raw then rawValidate L s else mnemonicValidate L s)
        then (case createFromUri L (trim s @ d) p of Inl e \<Rightarrow> None | Inr a \<Rightarrow> Some a)
        else None) \<and>
     isSeedValid st =
       ((if k = Raw then rawValidate L s else mnemonicValidate L s) \<and>
        (truthy (deriveError st) \<or>
         (case createFromUri L (trim s @ d) p of Inl e \<Rightarrow> False | Inr a \<Rightarrow> True))) \<and>
     derivePath st = d \<and> pairType st = p \<and> seed st = s \<and> seedType st = k"
proof -
  define de where "de =
       (case keyExtractSuri L (s @ d) of
          Inl e \<Rightarrow> Some (message e)
        | Inr path \<Rightarrow>
            if p = ascii ''ed25519'' \<and> list_ex isSoft path
            then Some (ascii ''Soft derivation paths are not allowed on ed25519'')
            else None)"
  have dL: "deriveValidate L s d p = Inr de"
    by (simp add: de_def deriveValidate_returns)
  have dL': "deriveValidate L' s d p = Inr de"
    using assms(1) by (simp add: de_def deriveValidate_returns)
  have rv: "rawValidate L' s = rawValidate L s"
    using assms(2) by (simp add: rawValidate_def isHexSeed_def)
  have af: "addressFromSeed L' s d p = addressFromSeed L s d p"
    using assms(4) by (simp add: addressFromSeed_def)
  have same: "updateAddress L' s d k p = updateAddress L s d k p"
    unfolding updateAddress_unfold [OF dL] updateAddress_unfold [OF dL']
    by (simp only: rv af assms(3))
  have "deriveError st = de \<and>
        address st =
          (if \<not> truthy de \<and> (if k = Raw then rawValidate L s else mnemonicValidate L s)
           then (case createFromUri L (trim s @ d) p of Inl e \<Rightarrow> None | Inr a \<Rightarrow> Some a)
           else None) \<and>
        isSeedValid st =
          ((if k = Raw then rawValidate L s else mnemonicValidate L s) \<and>
           (truthy de \<or>
            (case createFromUri L (trim s @ d) p of Inl e \<Rightarrow> False | Inr a \<Rightarrow> True))) \<and>
        derivePath st = d \<and> pairType st = p \<and> seed st = s \<and> seedType st = k"
    if "updateAddress L s d k p = Inr st" for st
    using that unfolding updateAddress_unfold [OF dL] by (auto simp: addressFromSeed_def)
  then have "updateAddress L s d k p = Inr st \<Longrightarrow> ?thesis" for st
    unfolding same de_def by (intro exI [of _ st]) simp
  then show ?thesis
    using updateAddress_total [of L s d k p] by (elim exE)
qed

theorem updateAddress_deterministic_witness:
  "keyExtractSuri demoLib2 (ascii ''abc'' @ ascii ''//hard'') =
     keyExtractSuri demoLib (ascii ''abc'' @ ascii ''//hard'') \<and>
   isHex demoLib2 (ascii ''abc'') = isHex demoLib (ascii ''abc'') \<and>
   mnemonicValidate demoLib2 (ascii ''abc'') = mnemonicValidate demoLib (ascii ''abc'') \<and>
   createFromUri demoLib2 (trim (ascii ''abc'') @ ascii ''//hard'') (ascii ''sr25519'') =
     createFromUri demoLib (trim (ascii ''abc'') @ ascii ''//hard'') (ascii ''sr25519'') \<and>
   DEV_PHRASE demoLib2 \<noteq> DEV_PHRASE demoLib \<and>
   (\<exists>st. updateAddress demoLib (ascii ''abc'') (ascii ''//hard'') Raw (ascii ''sr25519'') = Inr st \<and>
         updateAddress demoLib2 (ascii ''abc'') (ascii ''//hard'') Raw (ascii ''sr25519'') = Inr st \<and>
         address st = Some (ascii ''addr(sr25519,abc//hard)'') \<and>
         deriveError st = None \<and> isSeedValid st \<and>
         derivePath st = ascii ''//hard'' \<and> pairType st = ascii ''sr25519'' \<and>
         seed st = ascii ''abc'' \<and> seedType st = Raw)"
proof -
  have h1: "keyExtractSuri demoLib2 (ascii ''abc'' @ ascii ''//hard'') =
              keyExtractSuri demoLib (ascii ''abc'' @ ascii ''//hard'')"
    by (simp add: demoLib2_answers)
  have h2: "isHex demoLib2 (ascii ''abc'') = isHex demoLib (ascii ''abc'')"
    by (simp add: demoLib2_answers)
  have h3: "mnemonicValidate demoLib2 (ascii ''abc'') = mnemonicValidate demoLib (ascii ''abc'')"
    by (simp add: demoLib2_answers)
  have h4: "createFromUri demoLib2 (trim (ascii ''abc'') @ ascii ''//hard'') (ascii ''sr25519'') =
              createFromUri demoLib (trim (ascii ''abc'') @ ascii ''//hard'') (ascii ''sr25519'')"
    by (simp add: demoLib2_answers)
  have ph: "DEV_PHRASE demoLib2 \<noteq> DEV_PHRASE demoLib"
    by (simp add: demoLib_def demoLib2_def demoPhrase_def ascii_def)
  show ?thesis
    using h1 h2 h3 h4 ph updateAddress_deterministic [OF h1 h2 h3 h4, of Raw]
    by (auto simp: updateAddress_abc_hard)
qed

subsection \<open>The address is derived from the trimmed seed\<close>

text \<open>
  C10. \<open>addressFromSeed\<close> gives a seed and the trimmed seed the same result. The
  address in a state returned by \<open>updateAddress\<close> is the one created from the
  trimmed seed followed by the path, while the seed check was made on the seed as
  given, which the state echoes untrimmed. So a seed with surrounding white space
  can pass the check and get the trimmed seed's address; a seed of white space
  only, of length at most 32, passes \<open>rawValidate\<close> although its trimmed form, the
  empty string, does not.
\<close>

theorem addressFromSeed_trims:
  "addressFromSeed L s d p = addressFromSeed L (trim s) d p \<and>
   (\<forall>st a. updateAddress L s d k p = Inr st \<longrightarrow> address st = Some a \<longrightarrow>
      createFromUri L (trim s @ d) p = Inr a \<and> seed st = s \<and>
      (if k = Raw then rawValidate L s else mnemonicValidate L s)) \<and>
   (s \<noteq> [] \<and> length s \<le> 32 \<and> trim s = [] \<longrightarrow> rawValidate L s \<and> \<not> rawValidate L (trim s))"
proof (intro conjI allI impI)
  show "addressFromSeed L s d p = addressFromSeed L (trim s) d p"
    by (simp add: addressFromSeed_def trim_idem)
next
  fix st a
  assume upd: "updateAddress L s d k p = Inr st" and a: "address st = Some a"
  obtain de where de: "deriveValidate L s d p = Inr de"
    using deriveValidate_total by blast
  from upd a show "createFromUri L (trim s @ d) p = Inr a" and "seed st = s"
    and "if k = Raw then rawValidate L s else mnemonicValidate L s"
    unfolding updateAddress_unfold [OF de]
    by (auto simp: addressFromSeed_def split: if_splits sum.splits)
next
  assume h: "s \<noteq> [] \<and> length s \<le> 32 \<and> trim s = []"
  then show "rawValidate L s" by (simp add: rawValidate_def)
  from h show "\<not> rawValidate L (trim s)" by (simp add: rawValidate_def isHexSeed_def)
qed

theorem addressFromSeed_trims_witness:
  "trim (ascii '' abc '') = ascii ''abc'' \<and>
   rawValidate demoLib (ascii '' abc '') \<and>
   (\<exists>st. updateAddress demoLib (ascii '' abc '') (ascii ''//hard'') Raw (ascii ''sr25519'') = Inr st \<and>
         address st = Some (ascii ''addr(sr25519,abc//hard)'') \<and>
         createFromUri demoLib (ascii ''abc'' @ ascii ''//hard'') (ascii ''sr25519'') =
           Inr (ascii ''addr(sr25519,abc//hard)'') \<and>
         seed st = ascii '' abc '') \<and>
   trim (ascii '' '') = [] \<and>
   rawValidate demoLib (ascii '' '') \<and> \<not> rawValidate demoLib (trim (ascii '' ''))"
proof -
  have b: "ascii '' '' \<noteq> [] \<and> length (ascii '' '') \<le> 32 \<and> trim (ascii '' '') = []"
    by (simp add: trim_blank) (simp add: ascii_def)
  show ?thesis
    using b addressFromSeed_trims
        [of demoLib "ascii '' abc ''" "ascii ''//hard''" "ascii ''sr25519''" Raw]
      addressFromSeed_trims [of demoLib "ascii '' ''" "[]" "ascii ''sr25519''" Raw]
    by (simp add: updateAddress_hard trim_abc)
qed

end
